theory Spec2Isabelle
  imports Complex_Main
begin

section \<open>Camera calibration notebook: data model\<close>

text \<open>
  The notebook works on float64 tensors. They are modelled by real numbers, so rounding and
  non-finite values are outside the model. A 2-vector (focal lengths, principal point, a
  pixel position) is a pair, a 3D point a triple, and a tensor of shape [n, 2] a list of
  pairs.
\<close>

type_synonym vec2 = "real \<times> real"
type_synonym point3 = "real \<times> real \<times> real"

datatype error = UndefinedProjection | InvalidArgument | ValueError | IndexError
  | ZeroDivisionError | AssertionError

text \<open>The module-level constants of the notebook (the cell that sets up the scene).\<close>

definition rectangle_depth :: real where
  "rectangle_depth = 1000"

definition rectangle_vertices :: "point3 list" where
  "rectangle_vertices = [(-150, -75, rectangle_depth), (150, 75, rectangle_depth)]"

definition image_width :: int where
  "image_width = 400"

definition image_height :: int where
  "image_height = 300"

text \<open>
  The global variables that the optimisation cell binds: the intrinsics to recover, drawn at
  random by \<open>build_parameters\<close>, and the current estimate.
\<close>

record globals =
  real_focal_lengths :: vec2
  real_principal_point :: vec2
  estimate_focal_lengths :: vec2
  estimate_principal_point :: vec2

section \<open>The projection function\<close>

text \<open>
  Modelled from the spec: \<open>perspective.project\<close> is imported from tensorflow_graphics and
  its code is not part of the notebook. The spec gives its contract: each 3D point with
  strictly positive depth is mapped to \<open>u = f_x * X/Z + c_x\<close>, \<open>v = f_y * Y/Z + c_y\<close>, and
  the projection must fail when the depth is zero or negative.
\<close>

definition project_point :: "point3 \<Rightarrow> vec2 \<Rightarrow> vec2 \<Rightarrow> error + vec2" where
  "project_point p focal principal_point =
     (case p of (X, Y, Z) \<Rightarrow>
        if Z \<le> 0 then Inl UndefinedProjection
        else Inr (fst focal * X / Z + fst principal_point,
                  snd focal * Y / Z + snd principal_point))"

fun project :: "point3 list \<Rightarrow> vec2 \<Rightarrow> vec2 \<Rightarrow> error + vec2 list" where
  "project [] focal principal_point = Inr []"
| "project (p # ps) focal principal_point =
     (case project_point p focal principal_point of
        Inl e \<Rightarrow> Inl e
      | Inr q \<Rightarrow>
          (case project ps focal principal_point of
             Inl e \<Rightarrow> Inl e
           | Inr qs \<Rightarrow> Inr (q # qs)))"

section \<open>The residual function\<close>

text \<open>
  The notebook's functions call \<open>perspective.project\<close>; they are modelled with the
  projection they call as a parameter, which may raise.
\<close>

type_synonym projection = "point3 list \<Rightarrow> vec2 \<Rightarrow> vec2 \<Rightarrow> error + vec2 list"

text \<open>
  Subtraction of two tensors of shape [m, 2] and [n, 2]: element by element when
  \<open>m = n\<close>, a single row is broadcast against the other operand, and any other pair of
  shapes is refused.
\<close>

definition vec2_sub :: "vec2 \<Rightarrow> vec2 \<Rightarrow> vec2" where
  "vec2_sub a b = (fst a - fst b, snd a - snd b)"

definition tensor_sub :: "vec2 list \<Rightarrow> vec2 list \<Rightarrow> error + vec2 list" where
  "tensor_sub a b =
     (if length a = length b then Inr (map2 vec2_sub a b)
      else if length a = 1 then Inr (map (vec2_sub (hd a)) b)
      else if length b = 1 then Inr (map (\<lambda>x. vec2_sub x (hd b)) a)
      else Inl InvalidArgument)"

text \<open>
  \<open>residuals\<close> reads the globals \<open>rectangle_vertices\<close>, \<open>real_focal_lengths\<close> and
  \<open>real_principal_point\<close>; its two parameters shadow the globals of the same name. It
  assigns no global, so the state it returns is the state it was called in.
\<close>

definition residuals ::
  "projection \<Rightarrow> globals \<Rightarrow> vec2 \<Rightarrow> vec2 \<Rightarrow> (error + vec2 list) \<times> globals" where
  "residuals perspective_project g est_focal_lengths est_principal_point =
     (case perspective_project rectangle_vertices (real_focal_lengths g)
             (real_principal_point g) of
        Inl e \<Rightarrow> (Inl e, g)
      | Inr vertices_2d_gt \<Rightarrow>
          (case perspective_project rectangle_vertices est_focal_lengths
                  est_principal_point of
             Inl e \<Rightarrow> (Inl e, g)
           | Inr vertices_2d_observed \<Rightarrow>
               (tensor_sub vertices_2d_gt vertices_2d_observed, g)))"

section \<open>Rendering the rectangle\<close>

type_synonym pixel = "real \<times> real \<times> real"

text \<open>An image of shape (height, width, 3): a list of rows, each a list of pixels.\<close>

type_synonym image = "pixel list list"

text \<open>
  \<open>int(x)\<close> of a float truncates toward zero and returns a Python integer, which is not
  bounded.
\<close>

definition py_int :: "real \<Rightarrow> int" where
  "py_int r = (if 0 \<le> r then \<lfloor>r\<rfloor> else \<lceil>r\<rceil>)"

text \<open>
  The elements of an array of dtype int are 64-bit signed integers: \<open>int64 i\<close> is the
  value that the 64 bits hold after an operation whose exact result is \<open>i\<close>.
\<close>

definition int64 :: "int \<Rightarrow> int" where
  "int64 i = (i + 2 ^ 63) mod 2 ^ 64 - 2 ^ 63"

text \<open>
  \<open>.astype(int)\<close> of a float array is a cast to int64. It truncates toward zero when the
  result fits 64 bits; the cast of any other value gives the smallest 64-bit integer,
  \<open>- 2 ^ 63\<close> (the result on x86-64).
\<close>

definition astype_int :: "real \<Rightarrow> int" where
  "astype_int r =
     (let t = (if 0 \<le> r then \<lfloor>r\<rfloor> else \<lceil>r\<rceil>)
      in if - (2 ^ 63) \<le> t \<and> t < 2 ^ 63 then t else - (2 ^ 63))"

text \<open>
  \<open>np.zeros((h, w, 3))\<close> raises ValueError on a negative dimension. (An array too large
  to allocate is outside the model.)
\<close>

definition np_zeros :: "int \<Rightarrow> int \<Rightarrow> error + image" where
  "np_zeros h w =
     (if h < 0 \<or> w < 0 then Inl ValueError
      else Inr (replicate (nat h) (replicate (nat w) (0, 0, 0))))"

text \<open>\<open>range(a, b)\<close> over integers.\<close>

definition py_range :: "int \<Rightarrow> int \<Rightarrow> int list" where
  "py_range a b = [a..b - 1]"

text \<open>
  An index \<open>i\<close> into an axis of size \<open>n\<close>: numpy counts a negative index from the end
  and raises IndexError outside \<open>-n \<le> i < n\<close>.
\<close>

definition np_index :: "nat \<Rightarrow> int \<Rightarrow> error + nat" where
  "np_index n i =
     (if 0 \<le> i \<and> i < int n then Inr (nat i)
      else if - int n \<le> i \<and> i < 0 then Inr (nat (i + int n))
      else Inl IndexError)"

text \<open>The assignment \<open>image[y, x] = p\<close>.\<close>

definition set_pixel :: "image \<Rightarrow> int \<Rightarrow> int \<Rightarrow> pixel \<Rightarrow> error + image" where
  "set_pixel img y x p =
     (case np_index (length img) y of
        Inl e \<Rightarrow> Inl e
      | Inr r \<Rightarrow>
          (case np_index (length (img ! r)) x of
             Inl e \<Rightarrow> Inl e
           | Inr c \<Rightarrow> Inr (img[r := (img ! r)[c := p]])))"

text \<open>\<open>float(a) / float(b)\<close> raises ZeroDivisionError when \<open>b\<close> is zero.\<close>

definition float_div :: "int \<Rightarrow> int \<Rightarrow> error + real" where
  "float_div a b = (if b = 0 then Inl ZeroDivisionError else Inr (real_of_int a / real_of_int b))"

text \<open>A \<open>for\<close> loop over a list of indices; an exception in the body ends the loop.\<close>

fun for_loop :: "int list \<Rightarrow> (int \<Rightarrow> 's \<Rightarrow> error + 's) \<Rightarrow> 's \<Rightarrow> error + 's" where
  "for_loop [] body s = Inr s"
| "for_loop (i # is) body s =
     (case body i s of Inl e \<Rightarrow> Inl e | Inr s' \<Rightarrow> for_loop is body s')"

definition top_left_corner :: "vec2 \<Rightarrow> int \<times> int" where
  "top_left_corner v0 = (astype_int (max (fst v0) 0), astype_int (max (snd v0) 0))"

definition bottom_right_corner :: "vec2 \<Rightarrow> vec2 \<Rightarrow> int \<times> int" where
  "bottom_right_corner v1 image_dimensions =
     (astype_int (min (fst v1) (snd image_dimensions - 1)),
      astype_int (min (snd v1) (fst image_dimensions - 1)))"

text \<open>
  The denominators of the two interpolation divisions, \<open>bottom_right_corner[0] + 1 -
  top_left_corner[0]\<close> and \<open>bottom_right_corner[1] + 1 - top_left_corner[1]\<close>, in 64-bit
  arithmetic.
\<close>

definition x_denominator :: "int \<times> int \<Rightarrow> int \<times> int \<Rightarrow> int" where
  "x_denominator top_left bottom_right = int64 (int64 (fst bottom_right + 1) - fst top_left)"

definition y_denominator :: "int \<times> int \<Rightarrow> int \<times> int \<Rightarrow> int" where
  "y_denominator top_left bottom_right = int64 (int64 (snd bottom_right + 1) - snd top_left)"

text \<open>The body of the inner loop of \<open>render_rectangle\<close>.\<close>

definition write_pixel :: "int \<times> int \<Rightarrow> int \<times> int \<Rightarrow> int \<Rightarrow> int \<Rightarrow> image \<Rightarrow> error + image" where
  "write_pixel top_left bottom_right x y img =
     (case float_div (int64 (int64 (fst bottom_right + 1) - x))
             (x_denominator top_left bottom_right) of
        Inl e \<Rightarrow> Inl e
      | Inr c1 \<Rightarrow>
          (case float_div (int64 (int64 (snd bottom_right + 1) - y))
                  (y_denominator top_left bottom_right) of
             Inl e \<Rightarrow> Inl e
           | Inr c2 \<Rightarrow> set_pixel img y x (c1, c2, 1)))"

text \<open>The two nested loops of \<open>render_rectangle\<close>, with their body as a parameter.\<close>

definition raster_loops ::
  "int \<times> int \<Rightarrow> int \<times> int \<Rightarrow> (int \<Rightarrow> int \<Rightarrow> image \<Rightarrow> error + image) \<Rightarrow> image
   \<Rightarrow> error + image" where
  "raster_loops top_left bottom_right body img =
     for_loop (py_range (fst top_left) (int64 (fst bottom_right + 1)))
       (\<lambda>x. for_loop (py_range (snd top_left) (int64 (snd bottom_right + 1))) (\<lambda>y. body x y))
       img"

definition rasterize :: "int \<times> int \<Rightarrow> int \<times> int \<Rightarrow> image \<Rightarrow> error + image" where
  "rasterize top_left bottom_right img =
     raster_loops top_left bottom_right (write_pixel top_left bottom_right) img"

text \<open>
  \<open>render_rectangle\<close>: \<open>image_dimensions\<close> is (height, width), as float64 values. Rows 0
  and 1 of the projected vertices are the corners; fewer than two rows raise IndexError.
\<close>

definition render_rectangle ::
  "projection \<Rightarrow> point3 list \<Rightarrow> vec2 \<Rightarrow> vec2 \<Rightarrow> vec2 \<Rightarrow> error + image" where
  "render_rectangle perspective_project vertices focal principal_point image_dimensions =
     (case np_zeros (py_int (fst image_dimensions)) (py_int (snd image_dimensions)) of
        Inl e \<Rightarrow> Inl e
      | Inr img \<Rightarrow>
          (case perspective_project vertices focal principal_point of
             Inl e \<Rightarrow> Inl e
           | Inr vertices_2d \<Rightarrow>
               (case vertices_2d of
                  v0 # v1 # _ \<Rightarrow>
                    rasterize (top_left_corner v0) (bottom_right_corner v1 image_dimensions)
                      img
                | _ \<Rightarrow> Inl IndexError)))"

text \<open>
  The image plane and the default intrinsics of the notebook, with which it first calls
  \<open>render_rectangle\<close>.
\<close>

definition image_dimensions :: vec2 where
  "image_dimensions = (real_of_int image_height, real_of_int image_width)"

definition focal_lengths :: vec2 where
  "focal_lengths = (real_of_int image_height, real_of_int image_height)"

definition ideal_principal_point :: vec2 where
  "ideal_principal_point = (real_of_int image_width / 2, real_of_int image_height / 2)"

text \<open>An image has shape (h, w, 3) when it has \<open>h\<close> rows of \<open>w\<close> pixels each.\<close>

definition image_shape :: "nat \<Rightarrow> nat \<Rightarrow> image \<Rightarrow> bool" where
  "image_shape h w img = (length img = h \<and> (\<forall>row \<in> set img. length row = w))"

text \<open>
  What is required of one execution of the loop body, for image dimensions \<open>dims\<close> =
  (height, width): the pixel written is inside the image and both denominators are at
  least 1.
\<close>

definition write_in_bounds :: "vec2 \<Rightarrow> int \<times> int \<Rightarrow> int \<times> int \<Rightarrow> int \<Rightarrow> int \<Rightarrow> bool" where
  "write_in_bounds dims top_left bottom_right x y =
     (0 \<le> x \<and> real_of_int x \<le> snd dims - 1 \<and> 0 \<le> y \<and> real_of_int y \<le> fst dims - 1
      \<and> 1 \<le> x_denominator top_left bottom_right
      \<and> 1 \<le> y_denominator top_left bottom_right)"

text \<open>The loop body with that requirement asserted before it runs.\<close>

definition asserted_write_pixel ::
  "vec2 \<Rightarrow> int \<times> int \<Rightarrow> int \<times> int \<Rightarrow> int \<Rightarrow> int \<Rightarrow> image \<Rightarrow> error + image" where
  "asserted_write_pixel dims top_left bottom_right x y img =
     (if write_in_bounds dims top_left bottom_right x y
      then write_pixel top_left bottom_right x y img
      else Inl AssertionError)"

section \<open>The Levenberg-Marquardt solver\<close>

text \<open>
  Modelled from the spec: \<open>levenberg_marquardt.minimize\<close> is imported from
  tensorflow_graphics and its code is not part of the notebook, which only calls it. The
  model follows the solver of the spec: parameter groups are concatenated into one vector
  and split back, each iteration forms the damped normal equations, solves them for a
  step, accepts the step when the cost decreases and divides the damping by 10, or rejects
  it, multiplies the damping by 10 and retries. What the spec leaves to the implementation
  is a field of \<open>lm_config\<close>: the Jacobian strategy, the linear solver (None when the
  system cannot be solved, which rejects the step), the first damping factor, the number
  of inner retries, the tolerance on the cost decrease and the bound on the damping.
\<close>

type_synonym vec = "real list"
type_synonym matrix = "real list list"

record lm_state =
  params :: vec
  resid :: vec
  cost :: real
  damping :: real

record lm_config =
  jacobian :: "(vec \<Rightarrow> vec) \<Rightarrow> vec \<Rightarrow> matrix"
  linear_solve :: "matrix \<Rightarrow> vec \<Rightarrow> vec option"
  initial_damping :: real
  max_retries :: nat
  tolerance :: real
  max_damping :: real

definition flatten :: "vec list \<Rightarrow> vec" where
  "flatten groups = concat groups"

fun unflatten :: "nat list \<Rightarrow> vec \<Rightarrow> vec list" where
  "unflatten [] v = []"
| "unflatten (n # ns) v = take n v # unflatten ns (drop n v)"

text \<open>The cost \<open>0.5 * sum(r_i^2)\<close> of a residual vector.\<close>

definition half_squared_norm :: "vec \<Rightarrow> real" where
  "half_squared_norm r = 0.5 * sum_list (map (\<lambda>x. x * x) r)"

definition dot :: "vec \<Rightarrow> vec \<Rightarrow> real" where
  "dot u v = sum_list (map2 (*) u v)"

text \<open>\<open>J\<^sup>T J\<close>, for a Jacobian given as its list of rows.\<close>

definition gram :: "matrix \<Rightarrow> matrix" where
  "gram J = map (\<lambda>ci. map (\<lambda>cj. dot ci cj) (transpose J)) (transpose J)"

text \<open>\<open>J\<^sup>T J + \<lambda> diag(J\<^sup>T J)\<close>.\<close>

definition damped_normal_matrix :: "real \<Rightarrow> matrix \<Rightarrow> matrix" where
  "damped_normal_matrix l J =
     (let A = gram J; n = length A
      in map (\<lambda>i. map (\<lambda>j. A ! i ! j + (if i = j then l * A ! i ! i else 0)) [0..<n])
           [0..<n])"

text \<open>\<open>- J\<^sup>T r\<close>.\<close>

definition normal_rhs :: "matrix \<Rightarrow> vec \<Rightarrow> vec" where
  "normal_rhs J r = map (\<lambda>ci. - dot ci r) (transpose J)"

text \<open>Steps 2 to 4: the step \<open>\<Delta>\<close> that solves the damped normal equations.\<close>

definition lm_step :: "lm_config \<Rightarrow> (vec \<Rightarrow> vec) \<Rightarrow> lm_state \<Rightarrow> vec option" where
  "lm_step cfg f s =
     (let J = jacobian cfg f (params s)
      in linear_solve cfg (damped_normal_matrix (damping s) J) (normal_rhs J (resid s)))"

text \<open>
  Steps 5 and 6, one attempt: the state after the step when it is accepted, None when it
  is rejected. A step of another dimension than the parameter vector is rejected.
\<close>

definition try_step :: "lm_config \<Rightarrow> (vec \<Rightarrow> vec) \<Rightarrow> lm_state \<Rightarrow> lm_state option" where
  "try_step cfg f s =
     (case lm_step cfg f s of
        None \<Rightarrow> None
      | Some delta \<Rightarrow>
          if length delta \<noteq> length (params s) then None
          else
            (let params' = map2 (+) (params s) delta;
                 r' = f params';
                 cost' = half_squared_norm r'
             in if cost' < cost s
                then Some \<lparr>params = params', resid = r', cost = cost',
                           damping = damping s / 10\<rparr>
                else None))"

text \<open>
  One iteration: attempts until a step is accepted, with at most \<open>retries\<close> retries after
  the first one. The result says whether a step was accepted.
\<close>

fun lm_iteration :: "lm_config \<Rightarrow> (vec \<Rightarrow> vec) \<Rightarrow> nat \<Rightarrow> lm_state \<Rightarrow> bool \<times> lm_state" where
  "lm_iteration cfg f 0 s =
     (case try_step cfg f s of
        Some s' \<Rightarrow> (True, s')
      | None \<Rightarrow> (False, s\<lparr>damping := damping s * 10\<rparr>))"
| "lm_iteration cfg f (Suc retries) s =
     (case try_step cfg f s of
        Some s' \<Rightarrow> (True, s')
      | None \<Rightarrow> lm_iteration cfg f retries (s\<lparr>damping := damping s * 10\<rparr>))"

text \<open>
  Step 7 (b) and (c): stop when the cost decrease of an accepted step is below the
  tolerance, or when the damping exceeds its bound without an accepted step.
\<close>

definition lm_stop :: "lm_config \<Rightarrow> bool \<Rightarrow> lm_state \<Rightarrow> lm_state \<Rightarrow> bool" where
  "lm_stop cfg accepted s s' =
     (if accepted then cost s - cost s' < tolerance cfg else max_damping cfg < damping s')"

text \<open>
  The outer loop, at most \<open>n\<close> iterations: the list of the iterations it ran, each with
  whether its step was accepted and the state after it.
\<close>

fun lm_iterations ::
  "lm_config \<Rightarrow> (vec \<Rightarrow> vec) \<Rightarrow> nat \<Rightarrow> lm_state \<Rightarrow> (bool \<times> lm_state) list" where
  "lm_iterations cfg f 0 s = []"
| "lm_iterations cfg f (Suc n) s =
     (case lm_iteration cfg f (max_retries cfg) s of
        (accepted, s') \<Rightarrow>
          (accepted, s') #
            (if lm_stop cfg accepted s s' then [] else lm_iterations cfg f n s'))"

text \<open>The residual function on the concatenated parameter vector.\<close>

definition flat_residual :: "(vec list \<Rightarrow> vec) \<Rightarrow> vec list \<Rightarrow> vec \<Rightarrow> vec" where
  "flat_residual residual_fn initial_params v =
     residual_fn (unflatten (map length initial_params) v)"

definition lm_initial :: "lm_config \<Rightarrow> (vec list \<Rightarrow> vec) \<Rightarrow> vec list \<Rightarrow> lm_state" where
  "lm_initial cfg residual_fn initial_params =
     (let r = flat_residual residual_fn initial_params (flatten initial_params)
      in \<lparr>params = flatten initial_params, resid = r, cost = half_squared_norm r,
          damping = initial_damping cfg\<rparr>)"

text \<open>The states of a run: the initial state, then the state after each iteration.\<close>

definition lm_states ::
  "lm_config \<Rightarrow> (vec list \<Rightarrow> vec) \<Rightarrow> vec list \<Rightarrow> nat \<Rightarrow> lm_state list" where
  "lm_states cfg residual_fn initial_params num_iterations =
     lm_initial cfg residual_fn initial_params #
       map snd (lm_iterations cfg (flat_residual residual_fn initial_params) num_iterations
                  (lm_initial cfg residual_fn initial_params))"

text \<open>Whether the step of each iteration of a run was accepted.\<close>

definition lm_accepted ::
  "lm_config \<Rightarrow> (vec list \<Rightarrow> vec) \<Rightarrow> vec list \<Rightarrow> nat \<Rightarrow> bool list" where
  "lm_accepted cfg residual_fn initial_params num_iterations =
     map fst (lm_iterations cfg (flat_residual residual_fn initial_params) num_iterations
                (lm_initial cfg residual_fn initial_params))"

definition minimize ::
  "lm_config \<Rightarrow> (vec list \<Rightarrow> vec) \<Rightarrow> vec list \<Rightarrow> nat \<Rightarrow> real \<times> vec list" where
  "minimize cfg residual_fn initial_params num_iterations =
     (let s = last (lm_states cfg residual_fn initial_params num_iterations)
      in (cost s, unflatten (map length initial_params) (params s)))"

text \<open>
  The invariant of the solver state for the residual function \<open>f\<close> on parameter vectors
  of length \<open>n\<close>: the stored residual and cost are those of the stored parameters.
\<close>

definition lm_invariant :: "(vec \<Rightarrow> vec) \<Rightarrow> nat \<Rightarrow> lm_state \<Rightarrow> bool" where
  "lm_invariant f n s =
     (length (params s) = n \<and> resid s = f (params s) \<and> cost s = half_squared_norm (resid s))"

section \<open>The calibration problem as an instance of the solver\<close>

text \<open>
  The optimisation cell passes \<open>residuals\<close> and the two estimates to the solver. On the
  solver's side the two groups are the vectors [f_x, f_y] and [c_x, c_y], and the residual
  tensor is read row by row.
\<close>

definition calibration_residual :: "globals \<Rightarrow> vec list \<Rightarrow> vec" where
  "calibration_residual g groups =
     (case groups of
        [[fx, fy], [cx, cy]] \<Rightarrow>
          (case fst (residuals project g (fx, fy) (cx, cy)) of
             Inr rs \<Rightarrow> concat (map (\<lambda>(u, v). [u, v]) rs)
           | Inl e \<Rightarrow> [])
      | _ \<Rightarrow> [])"

text \<open>
  A configuration to run the solver on: the analytic Jacobian of the calibration residual
  (one row per residual, one column per parameter), and a solver for the systems whose
  matrix is diagonal with a non-zero diagonal, which refuses every other system.
\<close>

definition calibration_jacobian :: "(vec \<Rightarrow> vec) \<Rightarrow> vec \<Rightarrow> matrix" where
  "calibration_jacobian f p =
     concat (map (\<lambda>(X, Y, Z). [[- X / Z, 0, - 1, 0], [0, - Y / Z, 0, - 1]])
               rectangle_vertices)"

definition diagonal_solve :: "matrix \<Rightarrow> vec \<Rightarrow> vec option" where
  "diagonal_solve A b =
     (if length A = length b
         \<and> list_all (\<lambda>i. length (A ! i) = length A \<and> A ! i ! i \<noteq> 0
                \<and> list_all (\<lambda>j. i = j \<or> A ! i ! j = 0) [0..<length A]) [0..<length A]
      then Some (map (\<lambda>i. b ! i / A ! i ! i) [0..<length A]) else None)"

definition example_config :: lm_config where
  "example_config = \<lparr>jacobian = calibration_jacobian, linear_solve = diagonal_solve,
     initial_damping = 1, max_retries = 5, tolerance = 0, max_damping = 1000000\<rparr>"

definition example_globals :: globals where
  "example_globals = \<lparr>real_focal_lengths = (300, 300), real_principal_point = (200, 150),
     estimate_focal_lengths = (350, 250), estimate_principal_point = (220, 130)\<rparr>"

section \<open>The projection\<close>

lemma project_positive_depth:
  "(\<And>p. p \<in> set pts \<Longrightarrow> 0 < snd (snd p)) \<Longrightarrow>
   project pts focal pp =
     Inr (map (\<lambda>(X, Y, Z). (fst focal * X / Z + fst pp, snd focal * Y / Z + snd pp)) pts)"
proof (induction pts)
  case Nil
  show ?case by simp
next
  case (Cons p pts)
  obtain X Y Z where p: "p = (X, Y, Z)" by (cases p) auto
  have "0 < Z" using Cons.prems [of p] p by simp
  moreover have "project pts focal pp =
     Inr (map (\<lambda>(X, Y, Z). (fst focal * X / Z + fst pp, snd focal * Y / Z + snd pp)) pts)"
    using Cons.IH Cons.prems by simp
  ultimately show ?case by (simp add: p project_point_def)
qed

lemma project_rectangle_vertices:
  "project rectangle_vertices focal pp =
     Inr [(fst focal * (-150) / 1000 + fst pp, snd focal * (-75) / 1000 + snd pp),
          (fst focal * 150 / 1000 + fst pp, snd focal * 75 / 1000 + snd pp)]"
  by (simp add: rectangle_vertices_def rectangle_depth_def project_point_def)

text \<open>
  Claim C3. For 3D points (X, Y, Z) of strictly positive depth Z, focal lengths (f_x, f_y)
  and principal point (c_x, c_y), the projection returns for each point the pixel
  coordinates u = f_x * X / Z + c_x and v = f_y * Y / Z + c_y.
\<close>

theorem project_pixel_coordinates:
  assumes "\<forall>p \<in> set pts. 0 < snd (snd p)"
  shows "project pts (f_x, f_y) (c_x, c_y) =
     Inr (map (\<lambda>(X, Y, Z). (f_x * X / Z + c_x, f_y * Y / Z + c_y)) pts)"
  using project_positive_depth [of pts "(f_x, f_y)" "(c_x, c_y)"] assms by simp

theorem project_pixel_coordinates_witness:
  "project [(-150, -75, 1000), (150, 75, 1000)] (300, 300) (200, 150) =
     Inr [(155, 255 / 2), (245, 345 / 2)]"
  using project_pixel_coordinates
    [of "[(-150, -75, 1000), (150, 75, 1000)]" 300 300 200 150]
  by simp

section \<open>The residual function\<close>

lemma map2_vec2_sub_self: "map2 vec2_sub xs xs = replicate (length xs) (0, 0)"
  by (induction xs) (simp_all add: vec2_sub_def)

text \<open>
  Claim C2. For every estimate of the focal lengths f and the principal point c, the
  residual function returns the projection of the rectangle vertices under the true
  intrinsics minus their projection under the estimate; the two projections of the same
  vertices have the same shape and the difference is taken element by element.
\<close>

theorem residuals_is_difference_of_projections:
  assumes "perspective_project rectangle_vertices (real_focal_lengths g)
             (real_principal_point g) = Inr vertices_2d_gt"
    and "perspective_project rectangle_vertices f c = Inr vertices_2d_observed"
    and "length vertices_2d_gt = length vertices_2d_observed"
  shows "fst (residuals perspective_project g f c)
           = Inr (map2 vec2_sub vertices_2d_gt vertices_2d_observed)"
  using assms by (simp add: residuals_def tensor_sub_def)

theorem residuals_is_difference_of_projections_witness:
  "project rectangle_vertices (real_focal_lengths example_globals)
     (real_principal_point example_globals) = Inr [(155, 255 / 2), (245, 345 / 2)]
   \<and> project rectangle_vertices (350, 250) (220, 130)
       = Inr [(335 / 2, 445 / 4), (545 / 2, 595 / 4)]
   \<and> fst (residuals project example_globals (350, 250) (220, 130))
       = Inr [(- 25 / 2, 65 / 4), (- 55 / 2, 95 / 4)]"
proof -
  have gt: "project rectangle_vertices (real_focal_lengths example_globals)
     (real_principal_point example_globals) = Inr [(155, 255 / 2), (245, 345 / 2)]"
    by (simp add: project_rectangle_vertices example_globals_def)
  have ob: "project rectangle_vertices (350, 250) (220, 130)
       = Inr [(335 / 2, 445 / 4), (545 / 2, 595 / 4)]"
    by (simp add: project_rectangle_vertices)
  from residuals_is_difference_of_projections [of project example_globals _ "(350, 250)"
      "(220, 130)", OF gt ob]
  show ?thesis using gt ob by (simp add: vec2_sub_def)
qed

text \<open>
  Claim C7. The residual function has a zero at the true parameters: called with
  \<open>real_focal_lengths\<close> and \<open>real_principal_point\<close> it returns the zero tensor.
\<close>

theorem residuals_zero_at_true_parameters:
  assumes "perspective_project rectangle_vertices (real_focal_lengths g)
             (real_principal_point g) = Inr vertices_2d_gt"
  shows "fst (residuals perspective_project g (real_focal_lengths g) (real_principal_point g))
           = Inr (replicate (length vertices_2d_gt) (0, 0))"
  using assms by (simp add: residuals_def tensor_sub_def map2_vec2_sub_self)

theorem residuals_zero_at_true_parameters_witness:
  "project rectangle_vertices (real_focal_lengths example_globals)
     (real_principal_point example_globals) = Inr [(155, 255 / 2), (245, 345 / 2)]
   \<and> fst (residuals project example_globals (300, 300) (200, 150)) = Inr [(0, 0), (0, 0)]"
proof -
  have gt: "project rectangle_vertices (real_focal_lengths example_globals)
     (real_principal_point example_globals) = Inr [(155, 255 / 2), (245, 345 / 2)]"
    by (simp add: project_rectangle_vertices example_globals_def)
  from residuals_zero_at_true_parameters [of project example_globals, OF gt]
  show ?thesis using gt by (simp add: example_globals_def numeral_2_eq_2)
qed

text \<open>
  Claim C8. The residual function is pure and deterministic: two evaluations on the same
  arguments, in states that agree on the ground-truth values \<open>real_focal_lengths\<close> and
  \<open>real_principal_point\<close>, return the same residuals, and an evaluation leaves the state
  it runs in unchanged.
\<close>

theorem residuals_pure_and_deterministic:
  assumes "real_focal_lengths g1 = real_focal_lengths g2"
    and "real_principal_point g1 = real_principal_point g2"
  shows "fst (residuals perspective_project g1 f c) = fst (residuals perspective_project g2 f c)
       \<and> snd (residuals perspective_project g1 f c) = g1
       \<and> snd (residuals perspective_project g2 f c) = g2"
  using assms by (simp add: residuals_def split: sum.splits)

theorem residuals_pure_and_deterministic_witness:
  "fst (residuals project example_globals (350, 250) (220, 130))
     = fst (residuals project
              (example_globals\<lparr>estimate_focal_lengths := (1, 2),
                 estimate_principal_point := (3, 4)\<rparr>) (350, 250) (220, 130))
   \<and> snd (residuals project example_globals (350, 250) (220, 130)) = example_globals"
  using residuals_pure_and_deterministic [of example_globals
      "example_globals\<lparr>estimate_focal_lengths := (1, 2), estimate_principal_point := (3, 4)\<rparr>"
      project "(350, 250)" "(220, 130)"]
  by simp

section \<open>Rendering the rectangle\<close>

lemma int64_id: "- (2 ^ 63) \<le> i \<Longrightarrow> i < 2 ^ 63 \<Longrightarrow> int64 i = i"
  by (simp add: int64_def)

lemma astype_int_range: "- (2 ^ 63) \<le> astype_int r \<and> astype_int r < 2 ^ 63"
  by (simp add: astype_int_def Let_def)

lemma astype_int_cases:
  "astype_int r = - (2 ^ 63) \<or> astype_int r = (if 0 \<le> r then \<lfloor>r\<rfloor> else \<lceil>r\<rceil>)"
  by (simp add: astype_int_def Let_def)

lemma astype_int_max_nonneg:
  assumes "r < 2 ^ 63"
  shows "0 \<le> astype_int (max r 0)"
proof -
  have "\<lfloor>max r 0\<rfloor> < 2 ^ 63" using assms by (simp add: floor_less_iff)
  moreover have "0 \<le> \<lfloor>max r 0\<rfloor>" by simp
  ultimately show ?thesis by (simp add: astype_int_def Let_def)
qed

lemma astype_int_min_bound:
  assumes "0 \<le> x" "x \<le> astype_int (min r (W - 1))" "W \<le> 0 \<or> 1 \<le> W"
  shows "real_of_int x \<le> W - 1"
proof -
  define m where "m = min r (W - 1)"
  have m: "m \<le> W - 1" by (simp add: m_def)
  from astype_int_cases [of m] assms(1,2)
  have b: "astype_int m = (if 0 \<le> m then \<lfloor>m\<rfloor> else \<lceil>m\<rceil>)"
    unfolding m_def by auto
  from assms(2) have xm: "x \<le> astype_int m" by (simp add: m_def)
  show ?thesis
  proof (cases "0 \<le> m")
    case True
    with b xm have "x \<le> \<lfloor>m\<rfloor>" by simp
    then have "real_of_int x \<le> m" by (simp add: le_floor_iff)
    with m show ?thesis by linarith
  next
    case False
    with b xm have xc: "x \<le> \<lceil>m\<rceil>" by simp
    from False have "\<lceil>m\<rceil> \<le> 0" by (simp add: ceiling_le_iff)
    with xc assms(1) have x0: "x = 0" and c0: "\<lceil>m\<rceil> = 0" by linarith+
    have "1 \<le> W"
    proof (rule ccontr)
      assume "\<not> 1 \<le> W"
      with assms(3) have "W \<le> 0" by simp
      with m have "m \<le> - 1" by linarith
      then have "\<lceil>m\<rceil> \<le> - 1" by (simp add: ceiling_le_iff)
      with c0 show False by simp
    qed
    with x0 show ?thesis by simp
  qed
qed

lemma index_below_py_int:
  assumes "0 \<le> x" "real_of_int x \<le> W - 1"
  shows "x < int (nat (py_int W))"
proof -
  have "real_of_int (x + 1) \<le> W" using assms(2) by simp
  then have "x + 1 \<le> \<lfloor>W\<rfloor>" by (simp add: le_floor_iff)
  moreover have "0 \<le> W" using assms by linarith
  ultimately show ?thesis using assms(1) by (simp add: py_int_def)
qed

lemma set_py_range: "set (py_range a b) = {i. a \<le> i \<and> i < b}"
  by (auto simp: py_range_def)

text \<open>
  An index that a loop visits lies between the corners, and then the loop bound and the
  denominator are computed without overflow.
\<close>

lemma loop_index_between:
  assumes "0 \<le> a" "- (2 ^ 63) \<le> b" "b < 2 ^ 63" "x \<in> set (py_range a (int64 (b + 1)))"
  shows "a \<le> x \<and> x \<le> b \<and> int64 (int64 (b + 1) - a) = b + 1 - a
       \<and> int64 (int64 (b + 1) - x) = b + 1 - x"
proof -
  from assms(4) have ax: "a \<le> x" and xb: "x < int64 (b + 1)"
    by (simp_all add: set_py_range)
  have small: "b + 1 < 2 ^ 63"
  proof (rule ccontr)
    assume "\<not> b + 1 < 2 ^ 63"
    with assms(3) have "b + 1 = 2 ^ 63" by simp
    then have "int64 (b + 1) = - (2 ^ 63)" by (simp add: int64_def)
    with xb ax assms(1) show False by simp
  qed
  with assms(2) have e: "int64 (b + 1) = b + 1" by (simp add: int64_id)
  with xb have "x \<le> b" by simp
  moreover have "int64 (b + 1 - a) = b + 1 - a"
    using assms(1) small ax \<open>x \<le> b\<close> by (intro int64_id) linarith+
  moreover have "int64 (b + 1 - x) = b + 1 - x"
    using assms(1) small ax \<open>x \<le> b\<close> by (intro int64_id) linarith+
  ultimately show ?thesis using ax e by simp
qed


text \<open>A loop whose body keeps an invariant and never raises under it runs to its end.\<close>

lemma for_loop_invariant:
  assumes "\<And>i s. i \<in> set xs \<Longrightarrow> Inv s \<Longrightarrow> \<exists>s'. body i s = Inr s' \<and> Inv s'"
    and "Inv s"
  shows "\<exists>s'. for_loop xs body s = Inr s' \<and> Inv s'"
  using assms
proof (induction xs arbitrary: s)
  case Nil
  then show ?case by simp
next
  case (Cons i xs)
  from Cons.prems obtain s1 where s1: "body i s = Inr s1" "Inv s1" by fastforce
  have "\<exists>s'. for_loop xs body s1 = Inr s' \<and> Inv s'"
    using Cons.IH [of s1] Cons.prems(1) s1(2) by simp
  then show ?case using s1(1) by simp
qed

text \<open>Two bodies that agree on the indices of the list give the same loop.\<close>

lemma for_loop_cong_set:
  assumes "\<And>i s. i \<in> set xs \<Longrightarrow> f i s = g i s"
  shows "for_loop xs f s = for_loop xs g s"
  using assms by (induction xs arbitrary: s) (simp_all split: sum.splits)

lemma np_index_in_range: "0 \<le> i \<Longrightarrow> i < int n \<Longrightarrow> np_index n i = Inr (nat i)"
  by (simp add: np_index_def)

lemma set_pixel_in_range:
  assumes "image_shape h w img" "0 \<le> y" "y < int h" "0 \<le> x" "x < int w"
  shows "\<exists>img'. set_pixel img y x p = Inr img' \<and> image_shape h w img'"
proof -
  have len: "length img = h" and rows: "\<And>row. row \<in> set img \<Longrightarrow> length row = w"
    using assms(1) by (auto simp: image_shape_def)
  have ny: "nat y < length img" using assms(2,3) len by simp
  then have lrow: "length (img ! nat y) = w" using rows by simp
  have "set_pixel img y x p = Inr (img[nat y := (img ! nat y)[nat x := p]])"
    using assms(2-5) len lrow by (simp add: set_pixel_def np_index_in_range)
  moreover have "image_shape h w (img[nat y := (img ! nat y)[nat x := p]])"
    using len rows lrow ny
    by (auto simp: image_shape_def dest!: set_update_subset_insert [THEN subsetD])
  ultimately show ?thesis by blast
qed

lemma write_pixel_in_range:
  assumes "image_shape h w img" "0 \<le> y" "y < int h" "0 \<le> x" "x < int w"
    and "x_denominator top_left bottom_right \<noteq> 0"
    and "y_denominator top_left bottom_right \<noteq> 0"
  shows "\<exists>img'. write_pixel top_left bottom_right x y img = Inr img' \<and> image_shape h w img'"
  using set_pixel_in_range [OF assms(1-5)] assms(6,7)
  by (simp add: write_pixel_def float_div_def)

lemma visited_write_in_bounds:
  assumes v0: "fst v0 < 2 ^ 63" "snd v0 < 2 ^ 63"
    and dims: "fst dims \<le> 0 \<or> 1 \<le> fst dims" "snd dims \<le> 0 \<or> 1 \<le> snd dims"
    and x: "x \<in> set (py_range (fst (top_left_corner v0))
                 (int64 (fst (bottom_right_corner v1 dims) + 1)))"
    and y: "y \<in> set (py_range (snd (top_left_corner v0))
                 (int64 (snd (bottom_right_corner v1 dims) + 1)))"
  shows "write_in_bounds dims (top_left_corner v0) (bottom_right_corner v1 dims) x y"
proof -
  have low: "0 \<le> fst (top_left_corner v0)" "0 \<le> snd (top_left_corner v0)"
    using v0 by (simp_all add: top_left_corner_def astype_int_max_nonneg)
  have rng: "- (2 ^ 63) \<le> fst (bottom_right_corner v1 dims)"
    "fst (bottom_right_corner v1 dims) < 2 ^ 63"
    "- (2 ^ 63) \<le> snd (bottom_right_corner v1 dims)"
    "snd (bottom_right_corner v1 dims) < 2 ^ 63"
    using astype_int_range by (simp_all add: bottom_right_corner_def)
  note ix = loop_index_between [OF low(1) rng(1,2) x]
  note iy = loop_index_between [OF low(2) rng(3,4) y]
  have x0: "0 \<le> x" and y0: "0 \<le> y" using ix iy low by linarith+
  have "x \<le> astype_int (min (fst v1) (snd dims - 1))"
    using ix by (simp add: bottom_right_corner_def)
  from astype_int_min_bound [OF x0 this dims(2)] have xw: "real_of_int x \<le> snd dims - 1" .
  have "y \<le> astype_int (min (snd v1) (fst dims - 1))"
    using iy by (simp add: bottom_right_corner_def)
  from astype_int_min_bound [OF y0 this dims(1)] have yh: "real_of_int y \<le> fst dims - 1" .
  have "1 \<le> x_denominator (top_left_corner v0) (bottom_right_corner v1 dims)"
    using ix by (simp add: x_denominator_def)
  moreover have "1 \<le> y_denominator (top_left_corner v0) (bottom_right_corner v1 dims)"
    using iy by (simp add: y_denominator_def)
  ultimately show ?thesis using x0 y0 xw yh by (simp add: write_in_bounds_def)
qed

lemma rasterize_in_bounds:
  assumes v0: "fst v0 < 2 ^ 63" "snd v0 < 2 ^ 63"
    and dims: "fst dims \<le> 0 \<or> 1 \<le> fst dims" "snd dims \<le> 0 \<or> 1 \<le> snd dims"
    and shape: "image_shape (nat (py_int (fst dims))) (nat (py_int (snd dims))) img"
  shows "\<exists>img'. rasterize (top_left_corner v0) (bottom_right_corner v1 dims) img = Inr img'
               \<and> image_shape (nat (py_int (fst dims))) (nat (py_int (snd dims))) img'"
  unfolding rasterize_def raster_loops_def
proof (rule for_loop_invariant
    [where Inv = "image_shape (nat (py_int (fst dims))) (nat (py_int (snd dims)))",
      OF _ shape])
  fix x s
  assume x: "x \<in> set (py_range (fst (top_left_corner v0))
                 (int64 (fst (bottom_right_corner v1 dims) + 1)))"
    and s: "image_shape (nat (py_int (fst dims))) (nat (py_int (snd dims))) s"
  show "\<exists>s'. for_loop (py_range (snd (top_left_corner v0))
                 (int64 (snd (bottom_right_corner v1 dims) + 1)))
               (write_pixel (top_left_corner v0) (bottom_right_corner v1 dims) x) s = Inr s'
             \<and> image_shape (nat (py_int (fst dims))) (nat (py_int (snd dims))) s'"
  proof (rule for_loop_invariant
      [where Inv = "image_shape (nat (py_int (fst dims))) (nat (py_int (snd dims)))",
        OF _ s])
    fix y t
    assume y: "y \<in> set (py_range (snd (top_left_corner v0))
                 (int64 (snd (bottom_right_corner v1 dims) + 1)))"
      and t: "image_shape (nat (py_int (fst dims))) (nat (py_int (snd dims))) t"
    from visited_write_in_bounds [OF v0 dims x y]
    have b: "0 \<le> x" "real_of_int x \<le> snd dims - 1" "0 \<le> y" "real_of_int y \<le> fst dims - 1"
      "1 \<le> x_denominator (top_left_corner v0) (bottom_right_corner v1 dims)"
      "1 \<le> y_denominator (top_left_corner v0) (bottom_right_corner v1 dims)"
      by (simp_all add: write_in_bounds_def)
    from b(5,6) show "\<exists>s'. write_pixel (top_left_corner v0) (bottom_right_corner v1 dims) x y t
                 = Inr s'
               \<and> image_shape (nat (py_int (fst dims))) (nat (py_int (snd dims))) s'"
      by (intro write_pixel_in_range [OF t b(3) index_below_py_int [OF b(3,4)] b(1)
            index_below_py_int [OF b(1,2)]]) simp_all
  qed
qed

lemma asserted_loops_eq:
  assumes v0: "fst v0 < 2 ^ 63" "snd v0 < 2 ^ 63"
    and dims: "fst dims \<le> 0 \<or> 1 \<le> fst dims" "snd dims \<le> 0 \<or> 1 \<le> snd dims"
  shows "raster_loops (top_left_corner v0) (bottom_right_corner v1 dims)
           (asserted_write_pixel dims (top_left_corner v0) (bottom_right_corner v1 dims)) img
         = rasterize (top_left_corner v0) (bottom_right_corner v1 dims) img"
  unfolding rasterize_def raster_loops_def
proof (rule for_loop_cong_set)
  fix x s
  assume x: "x \<in> set (py_range (fst (top_left_corner v0))
                 (int64 (fst (bottom_right_corner v1 dims) + 1)))"
  show "for_loop (py_range (snd (top_left_corner v0))
            (int64 (snd (bottom_right_corner v1 dims) + 1)))
          (asserted_write_pixel dims (top_left_corner v0) (bottom_right_corner v1 dims) x) s
        = for_loop (py_range (snd (top_left_corner v0))
            (int64 (snd (bottom_right_corner v1 dims) + 1)))
          (write_pixel (top_left_corner v0) (bottom_right_corner v1 dims) x) s"
  proof (rule for_loop_cong_set)
    fix y t
    assume y: "y \<in> set (py_range (snd (top_left_corner v0))
                 (int64 (snd (bottom_right_corner v1 dims) + 1)))"
    from visited_write_in_bounds [OF v0 dims x y]
    show "asserted_write_pixel dims (top_left_corner v0) (bottom_right_corner v1 dims) x y t
          = write_pixel (top_left_corner v0) (bottom_right_corner v1 dims) x y t"
      by (simp add: asserted_write_pixel_def)
  qed
qed

lemma np_zeros_shape:
  "0 \<le> h \<Longrightarrow> 0 \<le> w \<Longrightarrow>
   \<exists>img. np_zeros h w = Inr img \<and> image_shape (nat h) (nat w) img"
  by (simp add: np_zeros_def image_shape_def)

text \<open>
  Claim C10. The bounds do not hold for every input with finite projected vertices (see
  the counterexample below). They hold when both coordinates of the first projected
  vertex are below 2^63, so that the cast of the clamped top-left corner to int64 does
  not overflow, and each image dimension is at most 0 or at least 1, as every whole
  number of pixels is. Then every index pair (x, y) that the two nested loops of
  \<open>render_rectangle\<close> visit satisfies 0 \<le> x \<le> width - 1 and 0 \<le> y \<le> height - 1, and
  the denominators of the two interpolation divisions are at least 1 there; running the
  loops with these bounds asserted before each write gives the result of the loops
  themselves; and when \<open>np.zeros\<close> accepts the dimensions, the call returns an image of
  the shape it allocated, so no write raises IndexError and no division raises
  ZeroDivisionError.
\<close>

theorem render_rectangle_writes_in_bounds:
  assumes "perspective_project vertices focal principal_point = Inr (v0 # v1 # vs)"
    and "fst v0 < 2 ^ 63" and "snd v0 < 2 ^ 63"
    and "fst dims \<le> 0 \<or> 1 \<le> fst dims" and "snd dims \<le> 0 \<or> 1 \<le> snd dims"
  shows "(\<forall>x \<in> set (py_range (fst (top_left_corner v0))
                 (int64 (fst (bottom_right_corner v1 dims) + 1))).
          \<forall>y \<in> set (py_range (snd (top_left_corner v0))
                 (int64 (snd (bottom_right_corner v1 dims) + 1))).
            0 \<le> x \<and> real_of_int x \<le> snd dims - 1 \<and> 0 \<le> y \<and> real_of_int y \<le> fst dims - 1
            \<and> 1 \<le> x_denominator (top_left_corner v0) (bottom_right_corner v1 dims)
            \<and> 1 \<le> y_denominator (top_left_corner v0) (bottom_right_corner v1 dims))
       \<and> raster_loops (top_left_corner v0) (bottom_right_corner v1 dims)
           (asserted_write_pixel dims (top_left_corner v0) (bottom_right_corner v1 dims)) img0
         = rasterize (top_left_corner v0) (bottom_right_corner v1 dims) img0
       \<and> (0 \<le> py_int (fst dims) \<and> 0 \<le> py_int (snd dims) \<longrightarrow>
            (\<exists>img. render_rectangle perspective_project vertices focal principal_point dims
                      = Inr img
                  \<and> image_shape (nat (py_int (fst dims))) (nat (py_int (snd dims))) img))"
proof (intro conjI ballI impI)
  assume "0 \<le> py_int (fst dims) \<and> 0 \<le> py_int (snd dims)"
  then obtain img1 where z: "np_zeros (py_int (fst dims)) (py_int (snd dims)) = Inr img1"
    "image_shape (nat (py_int (fst dims))) (nat (py_int (snd dims))) img1"
    using np_zeros_shape by blast
  from rasterize_in_bounds [OF assms(2-5) z(2)] z(1) assms(1)
  show "\<exists>img. render_rectangle perspective_project vertices focal principal_point dims
                 = Inr img
             \<and> image_shape (nat (py_int (fst dims))) (nat (py_int (snd dims))) img"
    by (simp add: render_rectangle_def)
next
  show "raster_loops (top_left_corner v0) (bottom_right_corner v1 dims)
           (asserted_write_pixel dims (top_left_corner v0) (bottom_right_corner v1 dims)) img0
         = rasterize (top_left_corner v0) (bottom_right_corner v1 dims) img0"
    by (rule asserted_loops_eq [OF assms(2-5)])
qed (use visited_write_in_bounds [OF assms(2-5)] in \<open>simp_all add: write_in_bounds_def\<close>)


theorem render_rectangle_writes_in_bounds_witness:
  "project rectangle_vertices focal_lengths ideal_principal_point
     = Inr [(155, 255 / 2), (245, 345 / 2)]
   \<and> 200 \<in> set (py_range (fst (top_left_corner (155, 255 / 2)))
                (int64 (fst (bottom_right_corner (245, 345 / 2) image_dimensions) + 1)))
   \<and> 150 \<in> set (py_range (snd (top_left_corner (155, 255 / 2)))
                (int64 (snd (bottom_right_corner (245, 345 / 2) image_dimensions) + 1)))
   \<and> real_of_int 200 \<le> snd image_dimensions - 1
   \<and> real_of_int 150 \<le> fst image_dimensions - 1
   \<and> 1 \<le> x_denominator (top_left_corner (155, 255 / 2))
            (bottom_right_corner (245, 345 / 2) image_dimensions)
   \<and> (\<exists>img. render_rectangle project rectangle_vertices focal_lengths
               ideal_principal_point image_dimensions = Inr img
           \<and> image_shape 300 400 img)"
proof -
  have p: "project rectangle_vertices focal_lengths ideal_principal_point
             = Inr ((155, 255 / 2) # (245, 345 / 2) # [])"
    by (simp add: project_rectangle_vertices focal_lengths_def ideal_principal_point_def
        image_height_def image_width_def)
  have tl: "top_left_corner (155, 255 / 2) = (155, 127)"
    by (simp add: top_left_corner_def astype_int_def)
  have br: "bottom_right_corner (245, 345 / 2) image_dimensions = (245, 172)"
    by (simp add: bottom_right_corner_def astype_int_def image_dimensions_def
        image_height_def image_width_def)
  have x: "200 \<in> set (py_range (fst (top_left_corner (155, 255 / 2)))
                (int64 (fst (bottom_right_corner (245, 345 / 2) image_dimensions) + 1)))"
    by (simp add: tl br set_py_range int64_def)
  have y: "150 \<in> set (py_range (snd (top_left_corner (155, 255 / 2)))
                (int64 (snd (bottom_right_corner (245, 345 / 2) image_dimensions) + 1)))"
    by (simp add: tl br set_py_range int64_def)
  have d: "py_int (fst image_dimensions) = 300" "py_int (snd image_dimensions) = 400"
    by (simp_all add: py_int_def image_dimensions_def image_height_def image_width_def)
  note inb = render_rectangle_writes_in_bounds
        [of project rectangle_vertices focal_lengths ideal_principal_point
            "(155, 255 / 2)" "(245, 345 / 2)" "[]" image_dimensions, OF p]
  have h: "fst (155 :: real, 255 / 2 :: real) < 2 ^ 63"
    "snd (155 :: real, 255 / 2 :: real) < 2 ^ 63"
    "fst image_dimensions \<le> 0 \<or> 1 \<le> fst image_dimensions"
    "snd image_dimensions \<le> 0 \<or> 1 \<le> snd image_dimensions"
    by (simp_all add: image_dimensions_def image_height_def image_width_def)
  from inb [OF h]
  have inst: "real_of_int 200 \<le> snd image_dimensions - 1
      \<and> real_of_int 150 \<le> fst image_dimensions - 1
      \<and> 1 \<le> x_denominator (top_left_corner (155, 255 / 2))
               (bottom_right_corner (245, 345 / 2) image_dimensions)"
    using x y by blast
  from inb [OF h] d
  have "\<exists>img. render_rectangle project rectangle_vertices focal_lengths
               ideal_principal_point image_dimensions = Inr img
           \<and> image_shape 300 400 img"
    by simp
  with inst x y p show ?thesis by blast
qed

lemma py_range_first: "a < b \<Longrightarrow> py_range a b = a # py_range (a + 1) b"
  by (simp add: py_range_def upto_rec1)

lemma py_range_empty: "b \<le> a \<Longrightarrow> py_range a b = []"
  by (simp add: py_range_def)

text \<open>
  The claim as stated fails at two inputs. With the first vertex at (10^30, 0, 1), the
  cast of 10^30 overflows to - 2^63, the outer loop starts at x = - 2^63 and the first
  write raises IndexError. With image dimensions (0.5, 0.5) the image has no pixel, the
  clamp to -0.5 truncates to 0, and the loops visit x = y = 0, above the bound
  width - 1 = -0.5; the write raises IndexError.
\<close>

theorem render_rectangle_writes_in_bounds_counterexample:
  "project [(1000000000000000000000000000000, 0, 1), (0, 0, 1)] (1, 1) (0, 0) = Inr [(1000000000000000000000000000000, 0), (0, 0)]
   \<and> top_left_corner (1000000000000000000000000000000, 0) = (- (2 ^ 63), 0)
   \<and> - (2 ^ 63) \<in> set (py_range (fst (top_left_corner (1000000000000000000000000000000, 0)))
                   (int64 (fst (bottom_right_corner (0, 0) image_dimensions) + 1)))
   \<and> 0 \<in> set (py_range (snd (top_left_corner (1000000000000000000000000000000, 0)))
                   (int64 (snd (bottom_right_corner (0, 0) image_dimensions) + 1)))
   \<and> render_rectangle project [(1000000000000000000000000000000, 0, 1), (0, 0, 1)] (1, 1) (0, 0) image_dimensions
       = Inl IndexError
   \<and> project [(0, 0, 1), (1, 1, 1)] (1, 1) (0, 0) = Inr [(0, 0), (1, 1)]
   \<and> 0 \<in> set (py_range (fst (top_left_corner (0, 0)))
                   (int64 (fst (bottom_right_corner (1, 1) (1 / 2, 1 / 2)) + 1)))
   \<and> 0 \<in> set (py_range (snd (top_left_corner (0, 0)))
                   (int64 (snd (bottom_right_corner (1, 1) (1 / 2, 1 / 2)) + 1)))
   \<and> \<not> real_of_int 0 \<le> snd (1 / 2 :: real, 1 / 2 :: real) - 1
   \<and> render_rectangle project [(0, 0, 1), (1, 1, 1)] (1, 1) (0, 0) (1 / 2, 1 / 2)
       = Inl IndexError"
proof -
  have p1: "project [(1000000000000000000000000000000, 0, 1), (0, 0, 1)] (1, 1) (0, 0) = Inr [(1000000000000000000000000000000, 0), (0, 0)]"
    by (simp add: project_point_def)
  have tl1: "top_left_corner (1000000000000000000000000000000, 0) = (- 9223372036854775808, 0)"
    by (simp add: top_left_corner_def astype_int_def)
  have br1: "bottom_right_corner (0, 0) image_dimensions = (0, 0)"
    by (simp add: bottom_right_corner_def astype_int_def image_dimensions_def
        image_height_def image_width_def)
  have i1: "int64 1 = 1" by (simp add: int64_def)
  have w1: "write_pixel (- 9223372036854775808, 0) (0, 0) (- 9223372036854775808) 0
              (replicate 300 (replicate 400 (0, 0, 0))) = Inl IndexError"
    by (simp add: write_pixel_def x_denominator_def y_denominator_def float_div_def
        set_pixel_def np_index_def int64_def)
  have r1: "rasterize (- 9223372036854775808, 0) (0, 0) (replicate 300 (replicate 400 (0, 0, 0)))
              = Inl IndexError"
    using w1
    by (simp add: rasterize_def raster_loops_def i1
        py_range_first [of "- 9223372036854775808" 1] py_range_first [of 0 1]
        py_range_empty)
  have z1: "np_zeros (py_int (fst image_dimensions)) (py_int (snd image_dimensions))
              = Inr (replicate 300 (replicate 400 (0, 0, 0)))"
    by (simp add: np_zeros_def py_int_def image_dimensions_def image_height_def
        image_width_def)
  have c1: "render_rectangle project [(1000000000000000000000000000000, 0, 1), (0, 0, 1)] (1, 1) (0, 0)
              image_dimensions = Inl IndexError"
    by (simp add: render_rectangle_def z1 p1 tl1 br1 r1 del: project.simps)
  have p2: "project [(0, 0, 1), (1, 1, 1)] (1, 1) (0, 0) = Inr [(0, 0), (1, 1)]"
    by (simp add: project_point_def)
  have tl2: "top_left_corner (0, 0) = (0, 0)"
    by (simp add: top_left_corner_def astype_int_def)
  have "\<lceil>- (1 / 2 :: real)\<rceil> = 0"
    by (rule ceiling_unique) simp_all
  then have br2: "bottom_right_corner (1, 1) (1 / 2, 1 / 2) = (0, 0)"
    by (simp add: bottom_right_corner_def astype_int_def)
  have w2: "write_pixel (0, 0) (0, 0) 0 0 [] = Inl IndexError"
    by (simp add: write_pixel_def x_denominator_def y_denominator_def float_div_def
        set_pixel_def np_index_def int64_def)
  have r2: "rasterize (0, 0) (0, 0) [] = Inl IndexError"
    by (simp add: rasterize_def raster_loops_def i1 py_range_first [of 0 1] py_range_empty w2)
  have z2: "np_zeros (py_int (fst (1 / 2 :: real, 1 / 2 :: real)))
              (py_int (snd (1 / 2 :: real, 1 / 2 :: real))) = Inr []"
    by (simp add: np_zeros_def py_int_def)
  have c2: "render_rectangle project [(0, 0, 1), (1, 1, 1)] (1, 1) (0, 0) (1 / 2, 1 / 2)
              = Inl IndexError"
    using z2 by (simp add: render_rectangle_def p2 tl2 br2 r2 del: project.simps)
  show ?thesis
    using p1 tl1 c1 p2 c2
    by (simp add: tl1 br1 tl2 br2 i1 set_py_range)
qed

section \<open>The Levenberg-Marquardt solver\<close>

lemma lm_invariant_damping:
  "lm_invariant f n (s\<lparr>damping := d\<rparr>) = lm_invariant f n s"
  by (simp add: lm_invariant_def)

text \<open>An accepted step keeps the invariant and strictly decreases the cost.\<close>

lemma try_step_accepts:
  assumes "try_step cfg f s = Some s'" "lm_invariant f n s"
  shows "lm_invariant f n s' \<and> cost s' < cost s"
  using assms
  by (auto simp: try_step_def lm_invariant_def Let_def split: option.splits if_splits)

lemma lm_iteration_step:
  assumes "lm_iteration cfg f k s = (accepted, s')" "lm_invariant f n s"
  shows "lm_invariant f n s'
       \<and> (if accepted then cost s' < cost s
          else cost s' = cost s \<and> params s' = params s)"
  using assms
proof (induction k arbitrary: s)
  case 0
  then show ?case
    by (auto simp: lm_invariant_damping split: option.splits dest: try_step_accepts)
next
  case (Suc k)
  show ?case
  proof (cases "try_step cfg f s")
    case None
    with Suc.prems
    have "lm_iteration cfg f k (s\<lparr>damping := damping s * 10\<rparr>) = (accepted, s')"
      by simp
    from Suc.IH [OF this] Suc.prems(2) show ?thesis
      by (auto simp: lm_invariant_damping split: if_splits)
  next
    case (Some t)
    with Suc.prems try_step_accepts [OF Some Suc.prems(2)] show ?thesis by auto
  qed
qed

text \<open>
  Along the iterations of the outer loop: the state before and the state after the
  iteration of index \<open>k\<close> satisfy the invariant, and the cost is strictly smaller after
  an iteration whose step was accepted.
\<close>

lemma lm_iterations_step:
  assumes "lm_invariant f n s" "k < length (lm_iterations cfg f m s)"
  shows "lm_invariant f n ((s # map snd (lm_iterations cfg f m s)) ! k)
       \<and> lm_invariant f n (snd (lm_iterations cfg f m s ! k))
       \<and> (fst (lm_iterations cfg f m s ! k) \<longrightarrow>
            cost (snd (lm_iterations cfg f m s ! k))
              < cost ((s # map snd (lm_iterations cfg f m s)) ! k))"
  using assms
proof (induction m arbitrary: s k)
  case 0
  then show ?case by simp
next
  case (Suc m)
  obtain accepted s' where it: "lm_iteration cfg f (max_retries cfg) s = (accepted, s')"
    by (cases "lm_iteration cfg f (max_retries cfg) s")
  note st = lm_iteration_step [OF it Suc.prems(1)]
  show ?case
  proof (cases k)
    case 0
    with it st Suc.prems(1) show ?thesis by (auto split: if_splits)
  next
    case (Suc j)
    with Suc.prems(2) it have nostop: "\<not> lm_stop cfg accepted s s'"
      and j: "j < length (lm_iterations cfg f m s')"
      by (auto split: if_splits)
    from Suc.IH [OF _ j] st
    have "lm_invariant f n ((s' # map snd (lm_iterations cfg f m s')) ! j)
       \<and> lm_invariant f n (snd (lm_iterations cfg f m s' ! j))
       \<and> (fst (lm_iterations cfg f m s' ! j) \<longrightarrow>
            cost (snd (lm_iterations cfg f m s' ! j))
              < cost ((s' # map snd (lm_iterations cfg f m s')) ! j))"
      by simp
    then show ?thesis using it nostop Suc j by simp
  qed
qed

lemma length_unflatten: "length v = sum_list ns \<Longrightarrow> map length (unflatten ns v) = ns"
  by (induction ns arbitrary: v) simp_all

lemma length_flatten: "length (flatten groups) = sum_list (map length groups)"
  by (simp add: flatten_def length_concat)

lemma lm_initial_invariant:
  "lm_invariant (flat_residual residual_fn initial_params)
     (sum_list (map length initial_params)) (lm_initial cfg residual_fn initial_params)"
  by (simp add: lm_invariant_def lm_initial_def Let_def length_flatten)

lemma lm_states_invariant:
  assumes "s \<in> set (lm_states cfg residual_fn initial_params num_iterations)"
  shows "lm_invariant (flat_residual residual_fn initial_params)
     (sum_list (map length initial_params)) s"
proof -
  let ?s0 = "lm_initial cfg residual_fn initial_params"
  let ?its = "lm_iterations cfg (flat_residual residual_fn initial_params) num_iterations ?s0"
  from assms have "s = ?s0 \<or> s \<in> set (map snd ?its)" by (simp add: lm_states_def)
  then show ?thesis
  proof
    assume "s = ?s0"
    then show ?thesis by (simp add: lm_initial_invariant)
  next
    assume "s \<in> set (map snd ?its)"
    then obtain k where k: "k < length ?its" "s = snd (?its ! k)"
      by (auto simp: in_set_conv_nth)
    with lm_iterations_step [OF lm_initial_invariant k(1)] show ?thesis by simp
  qed
qed

text \<open>
  Claim C1. For every residual function, initial parameter groups and iteration count,
  \<open>minimize\<close> returns a pair whose first component is the cost, half the squared norm
  of the residuals, at the parameters it returns, and whose second component has the
  grouped shape of the input. This holds for every configuration of the solver.
\<close>

theorem minimize_returns_cost_and_shape:
  "fst (minimize cfg residual_fn initial_params num_iterations)
     = half_squared_norm
         (residual_fn (snd (minimize cfg residual_fn initial_params num_iterations)))
   \<and> map length (snd (minimize cfg residual_fn initial_params num_iterations))
       = map length initial_params"
proof -
  let ?s = "last (lm_states cfg residual_fn initial_params num_iterations)"
  have "?s \<in> set (lm_states cfg residual_fn initial_params num_iterations)"
    by (rule last_in_set) (simp add: lm_states_def)
  from lm_states_invariant [OF this] show ?thesis
    by (simp add: minimize_def Let_def lm_invariant_def flat_residual_def length_unflatten)
qed

text \<open>
  A run of one iteration on the calibration problem, from the estimate (350, 250),
  (220, 130) of the intrinsics (300, 300), (200, 150): the step is accepted and halves
  the residuals.
\<close>

lemma example_states:
  "lm_states example_config (calibration_residual example_globals) [[350, 250], [220, 130]]
     (Suc 0)
   = [\<lparr>params = [350, 250, 220, 130], resid = [- 25 / 2, 65 / 4, - 55 / 2, 95 / 4],
        cost = 13925 / 16, damping = 1\<rparr>,
      \<lparr>params = [325, 275, 210, 140], resid = [- 25 / 4, 65 / 8, - 55 / 4, 95 / 8],
        cost = 13925 / 64, damping = 1 / 10\<rparr>]"
  by code_simp

lemma example_accepted:
  "lm_accepted example_config (calibration_residual example_globals) [[350, 250], [220, 130]]
     (Suc 0) = [True]"
  by code_simp

theorem minimize_returns_cost_and_shape_witness:
  "minimize example_config (calibration_residual example_globals)
     [[350, 250], [220, 130]] (Suc 0) = (13925 / 64, [[325, 275], [210, 140]])
   \<and> half_squared_norm (calibration_residual example_globals [[325, 275], [210, 140]])
       = 13925 / 64"
proof -
  have run: "minimize example_config (calibration_residual example_globals)
     [[350, 250], [220, 130]] (Suc 0) = (13925 / 64, [[325, 275], [210, 140]])"
    by (simp add: minimize_def example_states)
  from minimize_returns_cost_and_shape [of example_config
      "calibration_residual example_globals" "[[350, 250], [220, 130]]" "Suc 0"]
  show ?thesis by (simp add: run)
qed

text \<open>
  Claim C4. In a run of the solver, whenever the step of the iteration of index \<open>k\<close>
  (the iteration number k + 1) is accepted, the cost after that iteration is at most the
  cost after the iteration before it (the initial cost for the first iteration); the same
  holds for the sum of the squared residuals.
\<close>

theorem accepted_step_does_not_increase_cost:
  assumes "k < length (lm_accepted cfg residual_fn initial_params num_iterations)"
    and "lm_accepted cfg residual_fn initial_params num_iterations ! k"
  shows "cost (lm_states cfg residual_fn initial_params num_iterations ! Suc k)
           \<le> cost (lm_states cfg residual_fn initial_params num_iterations ! k)
       \<and> sum_list (map (\<lambda>x. x * x)
             (resid (lm_states cfg residual_fn initial_params num_iterations ! Suc k)))
           \<le> sum_list (map (\<lambda>x. x * x)
               (resid (lm_states cfg residual_fn initial_params num_iterations ! k)))"
proof -
  let ?f = "flat_residual residual_fn initial_params"
  let ?s0 = "lm_initial cfg residual_fn initial_params"
  let ?its = "lm_iterations cfg ?f num_iterations ?s0"
  let ?n = "sum_list (map length initial_params)"
  let ?before = "(?s0 # map snd ?its) ! k"
  let ?after = "snd (?its ! k)"
  from assms have k: "k < length ?its" and acc: "fst (?its ! k)"
    by (simp_all add: lm_accepted_def)
  from lm_iterations_step [OF lm_initial_invariant k] acc
  have inv: "lm_invariant ?f ?n ?before" "lm_invariant ?f ?n ?after"
    and less: "cost ?after < cost ?before"
    by blast+
  from inv have "cost ?before = half_squared_norm (resid ?before)"
    and "cost ?after = half_squared_norm (resid ?after)"
    unfolding lm_invariant_def by blast+
  with less have "sum_list (map (\<lambda>x. x * x) (resid ?after))
               \<le> sum_list (map (\<lambda>x. x * x) (resid ?before))"
    by (simp add: half_squared_norm_def)
  moreover have "lm_states cfg residual_fn initial_params num_iterations ! Suc k = ?after"
    using k by (simp add: lm_states_def)
  moreover have "lm_states cfg residual_fn initial_params num_iterations ! k = ?before"
    by (simp add: lm_states_def)
  ultimately show ?thesis using less by simp
qed

theorem accepted_step_does_not_increase_cost_witness:
  "lm_accepted example_config (calibration_residual example_globals)
     [[350, 250], [220, 130]] (Suc 0) = [True]
   \<and> cost (lm_states example_config (calibration_residual example_globals)
             [[350, 250], [220, 130]] (Suc 0) ! Suc 0)
       \<le> cost (lm_states example_config (calibration_residual example_globals)
                 [[350, 250], [220, 130]] (Suc 0) ! 0)"
  using accepted_step_does_not_increase_cost [of 0 example_config
      "calibration_residual example_globals" "[[350, 250], [220, 130]]" "Suc 0"]
  by (simp add: example_accepted)

end
